theory Spec2Isabelle
  imports Main "HOL-Library.AList"
begin

section \<open>Python values, dictionaries and exceptions\<close>

text \<open>
  The client of \<^verbatim>\<open>mem0/client/main.py\<close> marshals keyword options and JSON
  values. A Python value is one of the JSON shapes; a dictionary with string keys is an
  association list in insertion order (the keys of a well-formed dictionary are distinct).
  \<^verbatim>\<open>d[k] = v\<close> is \<open>AList.update k v d\<close>: it replaces the value in place when the
  key is present and appends the entry otherwise, as Python does.
\<close>

datatype pyval =
    PNone
  | PBool bool
  | PInt int
  | PStr string
  | PList "pyval list"
  | PDict "(string \<times> pyval) list"

type_synonym dict = "(string \<times> pyval) list"

record response =
  status_code :: nat
  text_of :: string
  json_body :: "pyval option"

datatype exn =
    ValueError string
  | APIError string
  | HTTPStatusError response
  | RequestError string
  | KeyError string
  | TypeError
  | UnboundLocalError string
  | JSONDecodeError

text \<open>
  The session fields read by the parameter reconciler. \<open>None\<close> is Python's \<^verbatim>\<open>None\<close>.
  The other attributes of the client (API key, host, user identifier, the HTTP clients with
  their base URL and headers) are fixed at construction and are not read by the methods
  modelled here; what the HTTP clients do is the transport of the run, below.
\<close>

record session =
  organization :: "string option"
  project :: "string option"
  org_id :: "string option"
  project_id :: "string option"

text \<open>
  Python truth value of an \<^verbatim>\<open>Optional[str]\<close>: \<^verbatim>\<open>None\<close> and the empty string are
  false. A session field is \<^emph>\<open>set\<close> when it is true in this sense; this is the test
  the source applies (\<^verbatim>\<open>self.org_id and self.project_id\<close>).
\<close>

definition truthy :: "string option \<Rightarrow> bool" where
  "truthy x = (case x of None \<Rightarrow> False | Some s \<Rightarrow> s \<noteq> [])"

definition pyopt :: "string option \<Rightarrow> pyval" where
  "pyopt x = (case x of None \<Rightarrow> PNone | Some s \<Rightarrow> PStr s)"

section \<open>Parameter reconciliation: \<^verbatim>\<open>MemoryClient._prepare_params\<close>\<close>

definition msg_not_both :: string where
  "msg_not_both = ''Please use either org_id/project_id or org_name/project_name, not both. ''
     @ ''Note that org_name/project_name are deprecated.''"

definition msg_both_ids :: string where
  "msg_both_ids = ''Please provide both org_id and project_id''"

definition msg_both_names :: string where
  "msg_both_names = ''Please provide both org_name and project_name''"

text \<open>
  \<^verbatim>\<open>{k: v for k, v in kwargs.items() if v is not None}\<close>: the entries of a dictionary
  whose value is not \<^verbatim>\<open>None\<close>, in order.
\<close>

definition not_none :: "dict \<Rightarrow> dict" where
  "not_none kwargs = [(k, v) \<leftarrow> kwargs. v \<noteq> PNone]"

text \<open>
  The method assigns into the dictionary it was given, so the model returns two things:
  the result (the raised exception or the returned new dictionary) and the contents of the
  caller's dictionary when the call ends. The three stages are the three \<^verbatim>\<open>if\<close>
  statements of the source, in order.
\<close>

definition prepare_params :: "session \<Rightarrow> dict \<Rightarrow> (exn + dict) \<times> dict" where
  "prepare_params self kwargs =
    (let has_new = (truthy (org_id self) \<or> truthy (project_id self));
         has_old = (truthy (organization self) \<or> truthy (project self))
     in
     if has_new \<and> has_old then (Inl (ValueError msg_not_both), kwargs)
     else
       case (if truthy (org_id self) \<and> truthy (project_id self)
             then Inr (AList.update ''project_id'' (pyopt (project_id self))
                        (AList.update ''org_id'' (pyopt (org_id self)) kwargs))
             else if truthy (org_id self) \<or> truthy (project_id self)
             then Inl (ValueError msg_both_ids)
             else Inr kwargs) of
         Inl e \<Rightarrow> (Inl e, kwargs)
       | Inr kwargs1 \<Rightarrow>
          (case (if truthy (organization self) \<and> truthy (project self)
                 then Inr (AList.update ''project_name'' (pyopt (project self))
                            (AList.update ''org_name'' (pyopt (organization self)) kwargs1))
                 else if truthy (organization self) \<or> truthy (project self)
                 then Inl (ValueError msg_both_names)
                 else Inr kwargs1) of
             Inl e \<Rightarrow> (Inl e, kwargs1)
           | Inr kwargs2 \<Rightarrow> (Inr (not_none kwargs2), kwargs2)))"

text \<open>A call without argument: \<^verbatim>\<open>kwargs\<close> defaults to a fresh empty dictionary.\<close>

definition prepare_params0 :: "session \<Rightarrow> exn + dict" where
  "prepare_params0 self = fst (prepare_params self [])"

section \<open>Payload builder: \<^verbatim>\<open>MemoryClient._prepare_payload\<close>\<close>

text \<open>\<^verbatim>\<open>payload.update(other)\<close>: assign the entries of \<open>other\<close> in order.\<close>

definition dict_update :: "dict \<Rightarrow> dict \<Rightarrow> dict" where
  "dict_update payload other = fold (\<lambda>(k, v). AList.update k v) other payload"

definition prepare_payload :: "pyval \<Rightarrow> dict \<Rightarrow> dict" where
  "prepare_payload messages kwargs =
    (let payload =
       (case messages of
          PStr s \<Rightarrow> [(''messages'', PList [PDict [(''role'', PStr ''user''), (''content'', PStr s)]])]
        | PList l \<Rightarrow> [(''messages'', PList l)]
        | _ \<Rightarrow> [])
     in dict_update payload (not_none kwargs))"

section \<open>Requests, the transport and the state of a run\<close>

record request =
  http_method :: string
  url :: string
  params :: "dict option"
  json :: "pyval option"

text \<open>
  What lies outside the client is a parameter: \<open>http\<close> is the remote service seen through
  the HTTP library, answering a request, given the requests sent before it, with a
  transport failure (\<open>Inl\<close>, the failure's message) or a response; \<open>fmt\<close> is Python's
  formatting of a value inside an f-string.
\<close>

record env =
  http :: "request list \<Rightarrow> request \<Rightarrow> string + response"
  fmt :: "pyval \<Rightarrow> string"

text \<open>
  The state of a run: the requests issued, oldest first, and the telemetry events emitted.
\<close>

record state =
  sent :: "request list"
  events :: "(string \<times> dict option) list"

type_synonym 'a action = "state \<Rightarrow> (exn + 'a) \<times> state"

definition return_val :: "'a \<Rightarrow> 'a action" where
  "return_val x st = (Inr x, st)"

definition raise :: "exn \<Rightarrow> 'a action" where
  "raise e st = (Inl e, st)"

definition lift :: "exn + 'a \<Rightarrow> 'a action" where
  "lift r st = (r, st)"

text \<open>Sequencing of statements: an exception ends the run of the body.\<close>

definition and_then :: "'a action \<Rightarrow> ('a \<Rightarrow> 'b action) \<Rightarrow> 'b action" where
  "and_then m f st = (case m st of (Inl e, st') \<Rightarrow> (Inl e, st') | (Inr x, st') \<Rightarrow> f x st')"

text \<open>
  One call of the HTTP client (\<^verbatim>\<open>self.client.get\<close>, \<^verbatim>\<open>.post\<close>, \<^verbatim>\<open>.delete\<close>): the
  request is issued and recorded; a transport failure is raised as
  \<^verbatim>\<open>httpx.RequestError\<close>.
\<close>

definition send :: "env \<Rightarrow> request \<Rightarrow> response action" where
  "send env rq st =
    (case http env (sent st) rq of
       Inl e \<Rightarrow> (Inl (RequestError e), st\<lparr>sent := sent st @ [rq]\<rparr>)
     | Inr r \<Rightarrow> (Inr r, st\<lparr>sent := sent st @ [rq]\<rparr>))"

text \<open>
  \<^verbatim>\<open>response.raise_for_status()\<close> of the HTTP library: \<^verbatim>\<open>HTTPStatusError\<close> unless
  the status is 2xx.
\<close>

definition is_success :: "response \<Rightarrow> bool" where
  "is_success r = (200 \<le> status_code r \<and> status_code r < 300)"

definition raise_for_status :: "response \<Rightarrow> unit action" where
  "raise_for_status r = (if is_success r then return_val () else raise (HTTPStatusError r))"

definition response_json :: "response \<Rightarrow> pyval action" where
  "response_json r = (case json_body r of None \<Rightarrow> raise JSONDecodeError | Some v \<Rightarrow> return_val v)"

text \<open>
  Modelled from the spec: \<^verbatim>\<open>capture_client_event\<close> of \<^verbatim>\<open>mem0.memory.telemetry\<close> is
  not among the sources. The spec has it as a best-effort side channel, called with an
  event name and a small metadata mapping, that never throws and never affects the call:
  the event is recorded and the run goes on.
\<close>

definition capture_client_event :: "string \<Rightarrow> dict option \<Rightarrow> unit action" where
  "capture_client_event name data st = (Inr (), st\<lparr>events := events st @ [(name, data)]\<rparr>)"

text \<open>\<^verbatim>\<open>list(kwargs.keys())\<close>\<close>

definition keys_of :: "dict \<Rightarrow> pyval" where
  "keys_of kwargs = PList (map (\<lambda>(k, v). PStr k) kwargs)"

text \<open>\<^verbatim>\<open>v[k]\<close> for a string \<open>k\<close>, and the items of \<^verbatim>\<open>for x in v\<close>.\<close>

definition subscript :: "pyval \<Rightarrow> string \<Rightarrow> exn + pyval" where
  "subscript v k =
    (case v of
       PDict d \<Rightarrow> (case map_of d k of None \<Rightarrow> Inl (KeyError k) | Some x \<Rightarrow> Inr x)
     | _ \<Rightarrow> Inl TypeError)"

definition py_iter :: "pyval \<Rightarrow> exn + pyval list" where
  "py_iter v =
    (case v of
       PList l \<Rightarrow> Inr l
     | PDict d \<Rightarrow> Inr (map (\<lambda>(k, x). PStr k) d)
     | PStr s \<Rightarrow> Inr (map (\<lambda>c. PStr [c]) s)
     | _ \<Rightarrow> Inl TypeError)"

section \<open>The error boundary: \<^verbatim>\<open>api_error_handler\<close>\<close>

text \<open>
  The two \<^verbatim>\<open>except\<close> clauses of the wrapper; any other exception passes. (The
  \<^verbatim>\<open>logger.error\<close> calls are not modelled.)
\<close>

fun api_error :: "exn \<Rightarrow> exn" where
  "api_error (HTTPStatusError e_response) = APIError (''API request failed: '' @ text_of e_response)"
| "api_error (RequestError e) = APIError (''Request failed: '' @ e)"
| "api_error e = e"

text \<open>
  \<^verbatim>\<open>wrapper\<close> runs the call \<^verbatim>\<open>func(*args, **kwargs)\<close> inside \<^verbatim>\<open>try\<close> and returns
  what the call returns.
\<close>

definition api_error_handler :: "'a action \<Rightarrow> 'a action" where
  "api_error_handler func st =
    (case func st of
       (Inl e, st') \<Rightarrow> (Inl (api_error e), st')
     | (Inr x, st') \<Rightarrow> (Inr x, st'))"

text \<open>
  Coroutines. Calling an \<^verbatim>\<open>async def\<close> function runs none of its body: the call returns
  a coroutine object at once, and the body runs when the object is awaited.
\<close>

datatype 'a coroutine = Coroutine "state \<Rightarrow> (exn + 'a) \<times> state"

definition async_def :: "'a action \<Rightarrow> 'a coroutine action" where
  "async_def body = return_val (Coroutine body)"

definition await :: "'a coroutine \<Rightarrow> 'a action" where
  "await c = (case c of Coroutine body \<Rightarrow> body)"

text \<open>\<^verbatim>\<open>await f(...)\<close>: make the call, then await what it returned.\<close>

definition awaited :: "'a coroutine action \<Rightarrow> 'a action" where
  "awaited call = and_then call await"

section \<open>Operations of \<^verbatim>\<open>MemoryClient\<close>\<close>

definition MemoryClient_add :: "env \<Rightarrow> session \<Rightarrow> pyval \<Rightarrow> dict \<Rightarrow> pyval action" where
  "MemoryClient_add env self messages kwargs0 = api_error_handler (
     and_then (lift (fst (prepare_params self kwargs0))) (\<lambda>kwargs.
     and_then (send env \<lparr>http_method = ''POST'', url = ''/v1/memories/'', params = None,
                         json = Some (PDict (prepare_payload messages kwargs))\<rparr>) (\<lambda>response.
     and_then (raise_for_status response) (\<lambda>_.
     and_then (capture_client_event ''client.add''
                 (Some [(''keys'', keys_of (AList.delete ''metadata'' kwargs))])) (\<lambda>_.
     response_json response)))))"

text \<open>
  In \<^verbatim>\<open>get_all\<close> the local \<^verbatim>\<open>response\<close> is assigned in the two branches only; it
  is \<open>None\<close> here while unassigned, and reading it then raises \<^verbatim>\<open>UnboundLocalError\<close>.
  \<^verbatim>\<open>kwargs\<close> is the dictionary that was passed to \<^verbatim>\<open>_prepare_params\<close>, as that call
  left it.
\<close>

definition MemoryClient_get_all :: "env \<Rightarrow> session \<Rightarrow> string \<Rightarrow> dict \<Rightarrow> pyval action" where
  "MemoryClient_get_all env self version kwargs0 = api_error_handler (
     case prepare_params self kwargs0 of (prepared, kwargs) \<Rightarrow>
     and_then (lift prepared) (\<lambda>params0.
     and_then
       (if version = ''v1'' then
          and_then (send env \<lparr>http_method = ''GET'', url = ''/'' @ version @ ''/memories/'',
                              params = Some params0, json = None\<rparr>)
            (\<lambda>r. return_val (Some r))
        else if version = ''v2'' then
          (case (map_of params0 ''page'', map_of params0 ''page_size'') of
             (Some page, Some page_size) \<Rightarrow>
               (let query_params = [(''page'', page), (''page_size'', page_size)];
                    params1 = AList.delete ''page_size'' (AList.delete ''page'' params0)
                in and_then (send env \<lparr>http_method = ''POST'', url = ''/'' @ version @ ''/memories/'',
                                       params = Some query_params, json = Some (PDict params1)\<rparr>)
                     (\<lambda>r. return_val (Some r)))
           | _ \<Rightarrow>
               and_then (send env \<lparr>http_method = ''POST'', url = ''/'' @ version @ ''/memories/'',
                                   params = None, json = Some (PDict params0)\<rparr>)
                 (\<lambda>r. return_val (Some r)))
        else return_val None) (\<lambda>assigned.
     and_then (case assigned of
                 None \<Rightarrow> raise (UnboundLocalError ''response'')
               | Some r \<Rightarrow> return_val r) (\<lambda>response.
     and_then (raise_for_status response) (\<lambda>_.
     and_then (capture_client_event ''client.get_all''
                 (Some [(''api_version'', PStr version),
                        (''keys'', keys_of (AList.delete ''metadata'' kwargs))])) (\<lambda>_.
     response_json response))))))"

definition MemoryClient_users :: "env \<Rightarrow> session \<Rightarrow> pyval action" where
  "MemoryClient_users env self = api_error_handler (
     and_then (lift (prepare_params0 self)) (\<lambda>params0.
     and_then (send env \<lparr>http_method = ''GET'', url = ''/v1/entities/'',
                         params = Some params0, json = None\<rparr>) (\<lambda>response.
     and_then (raise_for_status response) (\<lambda>_.
     and_then (capture_client_event ''client.users'' None) (\<lambda>_.
     response_json response)))))"

text \<open>
  The request of one turn of the loop of \<^verbatim>\<open>delete_users\<close>: the f-string reads
  \<^verbatim>\<open>entity['type']\<close>, then \<^verbatim>\<open>entity['id']\<close>.
\<close>

definition delete_request :: "env \<Rightarrow> dict \<Rightarrow> pyval \<Rightarrow> exn + request" where
  "delete_request env params0 entity =
    (case subscript entity ''type'' of
       Inl e \<Rightarrow> Inl e
     | Inr t \<Rightarrow>
        (case subscript entity ''id'' of
           Inl e \<Rightarrow> Inl e
         | Inr i \<Rightarrow> Inr \<lparr>http_method = ''DELETE'',
                         url = ''/v1/entities/'' @ fmt env t @ ''/'' @ fmt env i @ ''/'',
                         params = Some params0, json = None\<rparr>))"

text \<open>
  The \<^verbatim>\<open>for\<close> loop of \<^verbatim>\<open>delete_users\<close>, the same in both clients (the asynchronous
  one awaits each \<^verbatim>\<open>delete\<close> before the next turn).
\<close>

fun delete_entities :: "env \<Rightarrow> dict \<Rightarrow> pyval list \<Rightarrow> unit action" where
  "delete_entities env params0 [] = return_val ()"
| "delete_entities env params0 (entity # rest) =
     and_then (lift (delete_request env params0 entity)) (\<lambda>rq.
     and_then (send env rq) (\<lambda>response.
     and_then (raise_for_status response) (\<lambda>_.
     delete_entities env params0 rest)))"

definition deleted_message :: pyval where
  "deleted_message = PDict [(''message'', PStr ''All users, agents, and sessions deleted.'')]"

definition MemoryClient_delete_users :: "env \<Rightarrow> session \<Rightarrow> pyval action" where
  "MemoryClient_delete_users env self = api_error_handler (
     and_then (lift (prepare_params0 self)) (\<lambda>params0.
     and_then (MemoryClient_users env self) (\<lambda>entities.
     and_then (lift (subscript entities ''results'')) (\<lambda>results.
     and_then (lift (py_iter results)) (\<lambda>items.
     and_then (delete_entities env params0 items) (\<lambda>_.
     and_then (capture_client_event ''client.delete_users'' None) (\<lambda>_.
     return_val deleted_message)))))))"

section \<open>Operations of \<^verbatim>\<open>AsyncMemoryClient\<close>\<close>

text \<open>
  Each method is an \<^verbatim>\<open>async def\<close> under the same decorator: the decorator's
  \<^verbatim>\<open>try\<close> encloses the call that creates the coroutine.
\<close>

definition AsyncMemoryClient_add :: "env \<Rightarrow> session \<Rightarrow> pyval \<Rightarrow> dict \<Rightarrow> pyval coroutine action" where
  "AsyncMemoryClient_add env self messages kwargs0 = api_error_handler (async_def (
     and_then (lift (fst (prepare_params self kwargs0))) (\<lambda>kwargs.
     and_then (send env \<lparr>http_method = ''POST'', url = ''/v1/memories/'', params = None,
                         json = Some (PDict (prepare_payload messages kwargs))\<rparr>) (\<lambda>response.
     and_then (raise_for_status response) (\<lambda>_.
     and_then (capture_client_event ''async_client.add''
                 (Some [(''keys'', keys_of (AList.delete ''metadata'' kwargs))])) (\<lambda>_.
     response_json response))))))"

definition AsyncMemoryClient_get_all ::
  "env \<Rightarrow> session \<Rightarrow> string \<Rightarrow> dict \<Rightarrow> pyval coroutine action" where
  "AsyncMemoryClient_get_all env self version kwargs0 = api_error_handler (async_def (
     case prepare_params self kwargs0 of (prepared, kwargs) \<Rightarrow>
     and_then (lift prepared) (\<lambda>params0.
     and_then
       (if version = ''v1'' then
          and_then (send env \<lparr>http_method = ''GET'', url = ''/'' @ version @ ''/memories/'',
                              params = Some params0, json = None\<rparr>)
            (\<lambda>r. return_val (Some r))
        else if version = ''v2'' then
          and_then (send env \<lparr>http_method = ''POST'', url = ''/'' @ version @ ''/memories/'',
                              params = None, json = Some (PDict params0)\<rparr>)
            (\<lambda>r. return_val (Some r))
        else return_val None) (\<lambda>assigned.
     and_then (case assigned of
                 None \<Rightarrow> raise (UnboundLocalError ''response'')
               | Some r \<Rightarrow> return_val r) (\<lambda>response.
     and_then (raise_for_status response) (\<lambda>_.
     and_then (capture_client_event ''async_client.get_all''
                 (Some [(''api_version'', PStr version),
                        (''keys'', keys_of (AList.delete ''metadata'' kwargs))])) (\<lambda>_.
     response_json response)))))))"

definition AsyncMemoryClient_users :: "env \<Rightarrow> session \<Rightarrow> pyval coroutine action" where
  "AsyncMemoryClient_users env self = api_error_handler (async_def (
     and_then (lift (prepare_params0 self)) (\<lambda>params0.
     and_then (send env \<lparr>http_method = ''GET'', url = ''/v1/entities/'',
                         params = Some params0, json = None\<rparr>) (\<lambda>response.
     and_then (raise_for_status response) (\<lambda>_.
     and_then (capture_client_event ''async_client.users'' None) (\<lambda>_.
     response_json response))))))"

definition AsyncMemoryClient_delete_users :: "env \<Rightarrow> session \<Rightarrow> pyval coroutine action" where
  "AsyncMemoryClient_delete_users env self = api_error_handler (async_def (
     and_then (lift (prepare_params0 self)) (\<lambda>params0.
     and_then (awaited (AsyncMemoryClient_users env self)) (\<lambda>entities.
     and_then (lift (subscript entities ''results'')) (\<lambda>results.
     and_then (lift (py_iter results)) (\<lambda>items.
     and_then (delete_entities env params0 items) (\<lambda>_.
     and_then (capture_client_event ''async_client.delete_users'' None) (\<lambda>_.
     return_val deleted_message))))))))"

section \<open>What a failed request raises\<close>

text \<open>
  A request fails when the transport fails or the status is not 2xx; \<open>failure\<close> is the
  exception that \<open>send\<close> followed by \<open>raise_for_status\<close> then raises.
\<close>

definition failure :: "string + response \<Rightarrow> exn" where
  "failure outcome = (case outcome of Inl m \<Rightarrow> RequestError m | Inr r \<Rightarrow> HTTPStatusError r)"

definition failed :: "string + response \<Rightarrow> bool" where
  "failed outcome = (case outcome of Inl m \<Rightarrow> True | Inr r \<Rightarrow> \<not> is_success r)"

text \<open>The request of \<^verbatim>\<open>users()\<close>.\<close>

definition users_request :: "dict \<Rightarrow> request" where
  "users_request params0 =
     \<lparr>http_method = ''GET'', url = ''/v1/entities/'', params = Some params0, json = None\<rparr>"

section \<open>Python's formatting of a value\<close>

text \<open>
  \<^verbatim>\<open>str(v)\<close>, which an f-string applies to a value: a string is itself, and any other
  value is its \<^verbatim>\<open>repr\<close>. A character of the model is a code point below 256. In the
  \<^verbatim>\<open>repr\<close> of a string the quote is the single quote, unless the string has a single
  quote and no double quote; the backslash and the quote are escaped, tab, newline and
  carriage return are written \<^verbatim>\<open>\t\<close>, \<^verbatim>\<open>\n\<close>, \<^verbatim>\<open>\r\<close>, and every other character
  that is not printable as two hexadecimal digits after \<^verbatim>\<open>\x\<close>. Integers are written in
  full, whatever their length.
\<close>

fun decimal :: "nat \<Rightarrow> string" where
  "decimal n =
     (if n < 10 then [char_of (48 + n)] else decimal (n div 10) @ [char_of (48 + n mod 10)])"

declare decimal.simps [simp del]

definition str_of_int :: "int \<Rightarrow> string" where
  "str_of_int i = (if i < 0 then CHR ''-'' # decimal (nat (- i)) else decimal (nat i))"

definition hex_digit :: "nat \<Rightarrow> char" where
  "hex_digit n = (if n < 10 then char_of (48 + n) else char_of (87 + n))"

definition printable :: "char \<Rightarrow> bool" where
  "printable c =
    (let n = (of_char c :: nat)
     in (32 \<le> n \<and> n < 127) \<or> (161 \<le> n \<and> n \<noteq> 173))"

definition repr_char :: "char \<Rightarrow> char \<Rightarrow> string" where
  "repr_char quote c =
    (if c = quote \<or> c = CHR 0x5C then [CHR 0x5C, c]
     else if c = CHR 0x09 then [CHR 0x5C, CHR ''t'']
     else if c = CHR 0x0A then [CHR 0x5C, CHR ''n'']
     else if c = CHR 0x0D then [CHR 0x5C, CHR ''r'']
     else if printable c then [c]
     else [CHR 0x5C, CHR ''x'', hex_digit (of_char c div 16), hex_digit (of_char c mod 16)])"

definition repr_str :: "string \<Rightarrow> string" where
  "repr_str s =
    (let quote = (if CHR 0x27 \<in> set s \<and> CHR 0x22 \<notin> set s then CHR 0x22 else CHR 0x27)
     in quote # concat (map (repr_char quote) s) @ [quote])"

text \<open>\<^verbatim>\<open>sep.join(xs)\<close>\<close>

fun join :: "string \<Rightarrow> string list \<Rightarrow> string" where
  "join sep [] = []"
| "join sep [x] = x"
| "join sep (x # y # ys) = x @ sep @ join sep (y # ys)"

fun py_repr :: "pyval \<Rightarrow> string" where
  "py_repr PNone = ''None''"
| "py_repr (PBool b) = (if b then ''True'' else ''False'')"
| "py_repr (PInt i) = str_of_int i"
| "py_repr (PStr s) = repr_str s"
| "py_repr (PList l) = ''['' @ join '', '' (map py_repr l) @ '']''"
| "py_repr (PDict d) =
     ''{'' @ join '', '' (map (\<lambda>(k, v). repr_str k @ '': '' @ py_repr v) d) @ ''}''"

definition py_str :: "pyval \<Rightarrow> string" where
  "py_str v = (case v of PStr s \<Rightarrow> s | _ \<Rightarrow> py_repr v)"

section \<open>Example sessions and transports\<close>

text \<open>
  Concrete inputs on which the operations are run: an empty run state, a session with no
  identifier, a service that answers 200 to everything, one that answers 500, one that
  cannot be reached, and one that lists three entities and refuses to delete the second.
  Each formats values with \<open>py_str\<close>.
\<close>

definition st0 :: state where
  "st0 = \<lparr>sent = [], events = []\<rparr>"

definition env_ok :: env where
  "env_ok = \<lparr>http = (\<lambda>hist rq. Inr \<lparr>status_code = 200, text_of = ''{}'', json_body = Some (PDict [])\<rparr>),
            fmt = py_str\<rparr>"

definition env_500 :: env where
  "env_500 = \<lparr>http = (\<lambda>hist rq. Inr \<lparr>status_code = 500, text_of = ''boom'', json_body = None\<rparr>),
             fmt = py_str\<rparr>"

definition env_down :: env where
  "env_down = \<lparr>http = (\<lambda>hist rq. Inl ''connection refused''), fmt = py_str\<rparr>"

definition s_none :: session where
  "s_none = \<lparr>organization = None, project = None, org_id = None, project_id = None\<rparr>"

definition entity :: "string \<Rightarrow> string \<Rightarrow> pyval" where
  "entity t i = PDict [(''id'', PStr i), (''type'', PStr t)]"

definition env_entities :: env where
  "env_entities =
    \<lparr>http = (\<lambda>hist rq.
       if url rq = ''/v1/entities/'' then
         Inr \<lparr>status_code = 200, text_of = [],
              json_body = Some (PDict [(''results'',
                PList [entity ''user'' ''a'', entity ''user'' ''b'', entity ''agent'' ''c''])])\<rparr>
       else if url rq = ''/v1/entities/user/b/'' then
         Inr \<lparr>status_code = 500, text_of = ''boom'', json_body = None\<rparr>
       else Inr \<lparr>status_code = 204, text_of = [], json_body = None\<rparr>),
     fmt = py_str\<rparr>"

definition delete_of :: "string \<Rightarrow> request" where
  "delete_of path = \<lparr>http_method = ''DELETE'', url = path, params = Some [], json = None\<rparr>"

section \<open>Formatting, on examples\<close>

lemma py_str_examples:
  "py_str (PStr ''user'') = ''user''"
  "py_str (PInt 7) = ''7''"
  "py_str (PInt (- 120)) = ''-120''"
  "py_str PNone = ''None''"
  "py_str (PBool True) = ''True''"
  "py_str (PList [PInt 1, PNone, PDict [(''k'', PBool False)]])
     = ''[1, None, {'' @ [CHR 0x27] @ ''k'' @ [CHR 0x27] @ '': False}]''"
  by code_simp+

section \<open>Facts about dictionaries\<close>

lemma map_of_not_none:
  "map_of kwargs k = Some v \<Longrightarrow> v \<noteq> PNone \<Longrightarrow> map_of (not_none kwargs) k = Some v"
  by (induction kwargs) (auto simp: not_none_def)

lemma set_not_none: "set (not_none kwargs) = {(k, v). (k, v) \<in> set kwargs \<and> v \<noteq> PNone}"
  by (auto simp: not_none_def)

lemma distinct_not_none: "distinct (map fst kwargs) \<Longrightarrow> distinct (map fst (not_none kwargs))"
  by (simp add: not_none_def distinct_map_filter)

lemma map_of_not_none_distinct:
  "distinct (map fst kwargs) \<Longrightarrow>
   map_of (not_none kwargs) k =
     (case map_of kwargs k of None \<Rightarrow> None | Some v \<Rightarrow> if v = PNone then None else Some v)"
proof (induction kwargs)
  case Nil
  show ?case by (simp add: not_none_def)
next
  case (Cons p kwargs)
  obtain k' v' where p: "p = (k', v')" by (cases p)
  from Cons.prems p have fresh: "k' \<notin> fst ` set kwargs" and d: "distinct (map fst kwargs)"
    by auto
  have absent: "map_of (not_none kwargs) k' = None"
    using fresh by (auto simp: map_of_eq_None_iff set_not_none image_iff)
  have ih: "map_of (not_none kwargs) k =
     (case map_of kwargs k of None \<Rightarrow> None | Some v \<Rightarrow> if v = PNone then None else Some v)"
    using Cons.IH d by simp
  have unfold: "not_none ((k', v') # kwargs) =
      (if v' \<noteq> PNone then [(k', v')] else []) @ not_none kwargs"
    by (simp add: not_none_def)
  show ?case
  proof (cases "k = k'")
    case True
    have "map_of kwargs k' = None"
      using fresh by (simp add: map_of_eq_None_iff)
    with True absent show ?thesis unfolding p unfold by simp
  next
    case False
    with ih show ?thesis unfolding p unfold by simp
  qed
qed

lemma map_of_rev_distinct: "distinct (map fst xs) \<Longrightarrow> map_of (rev xs) = map_of xs"
  by (subst map_of_inject_set) (simp_all add: rev_map [symmetric])

lemma map_of_dict_update:
  "map_of (dict_update payload other) = map_of payload ++ map_of (rev other)"
proof (induction other arbitrary: payload)
  case Nil
  show ?case by (simp add: dict_update_def)
next
  case (Cons p other)
  obtain k v where p: "p = (k, v)" by (cases p)
  have "map_of (dict_update payload (p # other)) = map_of (dict_update (AList.update k v payload) other)"
    by (simp add: dict_update_def p)
  also have "\<dots> = map_of (AList.update k v payload) ++ map_of (rev other)"
    by (rule Cons.IH)
  also have "\<dots> = map_of payload ++ map_of (rev (p # other))"
    by (simp add: update_conv' p map_add_upd_left fun_eq_iff map_add_def split: option.splits)
  finally show ?case .
qed

section \<open>Properties of parameter reconciliation\<close>

text \<open>
  C1. When the session's org ID and project ID are both set and the legacy names are
  unset, reconciliation returns a mapping, for every input mapping, in which
  \<^verbatim>\<open>org_id\<close> and \<^verbatim>\<open>project_id\<close> are bound to the session's values, whatever the
  input bound them to.
\<close>

theorem prepare_params_injects_ids:
  assumes "org_id s = Some oid" and "oid \<noteq> []"
    and "project_id s = Some pid" and "pid \<noteq> []"
    and "\<not> truthy (organization s)" and "\<not> truthy (project s)"
  shows "\<exists>out. fst (prepare_params s kw) = Inr out
           \<and> map_of out ''org_id'' = Some (PStr oid)
           \<and> map_of out ''project_id'' = Some (PStr pid)"
proof -
  let ?kw2 = "AList.update ''project_id'' (PStr pid) (AList.update ''org_id'' (PStr oid) kw)"
  have res: "fst (prepare_params s kw) = Inr (not_none ?kw2)"
    using assms by (simp add: prepare_params_def truthy_def pyopt_def)
  have "map_of ?kw2 ''org_id'' = Some (PStr oid)"
    by (simp add: update_conv')
  then have o: "map_of (not_none ?kw2) ''org_id'' = Some (PStr oid)"
    by (rule map_of_not_none) simp
  have "map_of ?kw2 ''project_id'' = Some (PStr pid)"
    by (simp add: update_conv')
  then have p: "map_of (not_none ?kw2) ''project_id'' = Some (PStr pid)"
    by (rule map_of_not_none) simp
  from res o p show ?thesis by blast
qed

theorem prepare_params_injects_ids_witness:
  "\<exists>out. fst (prepare_params
        \<lparr>organization = None, project = None, org_id = Some ''org_1'', project_id = Some ''proj_1''\<rparr>
        [(''org_id'', PStr ''other''), (''user_id'', PStr ''alice''), (''project_id'', PNone)])
      = Inr out
    \<and> map_of out ''org_id'' = Some (PStr ''org_1'')
    \<and> map_of out ''project_id'' = Some (PStr ''proj_1'')"
  using prepare_params_injects_ids
    [of "\<lparr>organization = None, project = None, org_id = Some ''org_1'', project_id = Some ''proj_1''\<rparr>"
        "''org_1''" "''proj_1''"
        "[(''org_id'', PStr ''other''), (''user_id'', PStr ''alice''), (''project_id'', PNone)]"]
  by (simp add: truthy_def)

text \<open>
  C2. When the legacy name pair and the ID pair are both configured, reconciliation raises
  the \<^verbatim>\<open>ValueError\<close> of its first check for every input mapping; nothing is returned
  and nothing has been assigned into the caller's mapping.
\<close>

theorem prepare_params_rejects_both_pairs:
  assumes "truthy (org_id s)" and "truthy (project_id s)"
    and "truthy (organization s)" and "truthy (project s)"
  shows "prepare_params s kw = (Inl (ValueError msg_not_both), kw)"
  using assms by (simp add: prepare_params_def)

theorem prepare_params_rejects_both_pairs_witness:
  "prepare_params
     \<lparr>organization = Some ''acme'', project = Some ''demo'',
      org_id = Some ''org_1'', project_id = Some ''proj_1''\<rparr>
     [(''user_id'', PStr ''alice'')]
   = (Inl (ValueError msg_not_both), [(''user_id'', PStr ''alice'')])"
  using prepare_params_rejects_both_pairs
    [of "\<lparr>organization = Some ''acme'', project = Some ''demo'',
          org_id = Some ''org_1'', project_id = Some ''proj_1''\<rparr>"
        "[(''user_id'', PStr ''alice'')]"]
  by (simp add: truthy_def)

text \<open>
  C3. When exactly one of org ID and project ID is set, or exactly one of the legacy org
  name and project name is set, reconciliation raises a \<^verbatim>\<open>ValueError\<close> for every
  input mapping (which of the three messages depends on the other pair), and the caller's
  mapping is as it was.
\<close>

theorem prepare_params_rejects_half_pair:
  assumes "truthy (org_id s) \<noteq> truthy (project_id s)
         \<or> truthy (organization s) \<noteq> truthy (project s)"
  shows "\<exists>msg. prepare_params s kw = (Inl (ValueError msg), kw)"
  using assms by (auto simp: prepare_params_def)

theorem prepare_params_rejects_half_pair_witness:
  "(\<exists>msg. prepare_params
       \<lparr>organization = None, project = None, org_id = Some ''org_1'', project_id = None\<rparr>
       [(''user_id'', PStr ''alice'')]
     = (Inl (ValueError msg), [(''user_id'', PStr ''alice'')]))
   \<and> (\<exists>msg. prepare_params
       \<lparr>organization = None, project = Some ''demo'', org_id = None, project_id = None\<rparr>
       []
     = (Inl (ValueError msg), []))"
  using prepare_params_rejects_half_pair
    [of "\<lparr>organization = None, project = None, org_id = Some ''org_1'', project_id = None\<rparr>"
        "[(''user_id'', PStr ''alice'')]"]
    prepare_params_rejects_half_pair
    [of "\<lparr>organization = None, project = Some ''demo'', org_id = None, project_id = None\<rparr>"
        "[]"]
  by (simp add: truthy_def)

text \<open>
  C4. When none of org ID, project ID, legacy org name and legacy project name is set,
  reconciliation returns, for every input mapping \<open>m\<close>, exactly the entries of \<open>m\<close> whose
  value is not \<^verbatim>\<open>None\<close>, unchanged and in order. As a mapping (the keys of \<open>m\<close>
  distinct), the result is \<open>m\<close> restricted to the keys with a non-null value: a key bound
  to \<^verbatim>\<open>None\<close> is absent from the result, not bound to \<^verbatim>\<open>None\<close>.
\<close>

theorem prepare_params_unset_non_null:
  assumes "\<not> truthy (org_id s)" and "\<not> truthy (project_id s)"
    and "\<not> truthy (organization s)" and "\<not> truthy (project s)"
  shows "\<exists>out. fst (prepare_params s m) = Inr out
      \<and> out = [(k, v) \<leftarrow> m. v \<noteq> PNone]
      \<and> PNone \<notin> snd ` set out
      \<and> (distinct (map fst m) \<longrightarrow>
           (\<forall>k. map_of out k =
              (case map_of m k of None \<Rightarrow> None
               | Some v \<Rightarrow> if v = PNone then None else Some v)))"
proof -
  have res: "fst (prepare_params s m) = Inr (not_none m)"
    using assms by (simp add: prepare_params_def)
  have eq: "not_none m = [(k, v) \<leftarrow> m. v \<noteq> PNone]"
    by (simp add: not_none_def)
  have nonull: "PNone \<notin> snd ` set (not_none m)"
    by (auto simp: set_not_none)
  have maps: "distinct (map fst m) \<longrightarrow>
           (\<forall>k. map_of (not_none m) k =
              (case map_of m k of None \<Rightarrow> None
               | Some v \<Rightarrow> if v = PNone then None else Some v))"
    by (simp add: map_of_not_none_distinct)
  from res eq nonull maps show ?thesis by metis
qed

theorem prepare_params_unset_non_null_witness:
  "\<exists>out. fst (prepare_params
        \<lparr>organization = None, project = Some [], org_id = None, project_id = None\<rparr>
        [(''user_id'', PStr ''alice''), (''agent_id'', PNone), (''limit'', PInt 5)]) = Inr out
      \<and> out = [(''user_id'', PStr ''alice''), (''limit'', PInt 5)]
      \<and> map_of out ''agent_id'' = None
      \<and> map_of out ''limit'' = Some (PInt 5)"
  using prepare_params_unset_non_null
    [of "\<lparr>organization = None, project = Some [], org_id = None, project_id = None\<rparr>"
        "[(''user_id'', PStr ''alice''), (''agent_id'', PNone), (''limit'', PInt 5)]"]
  by (auto simp: truthy_def)

text \<open>
  C9, as stated, fails: the method assigns the session's identifiers into the dictionary
  it was given, so with the ID pair set the caller's mapping has two more entries after
  the call than before it.
\<close>

theorem prepare_params_mutates_counterexample:
  "snd (prepare_params
      \<lparr>organization = None, project = None, org_id = Some ''org_1'', project_id = Some ''proj_1''\<rparr>
      [(''user_id'', PStr ''alice'')])
   \<noteq> [(''user_id'', PStr ''alice'')]"
  by (simp add: prepare_params_def truthy_def pyopt_def)

text \<open>
  C9, amended. Reconciliation is a function of the four identifier fields of the session
  and of the input mapping alone (it takes no transport and no request trace, and equal
  arguments give equal results). It returns a new mapping, the non-null entries of the
  caller's mapping as that mapping stands when the call ends. The caller's mapping is
  unchanged when the call raises and when no identifier is set; when the call succeeds
  with the ID pair set, \<^verbatim>\<open>org_id\<close> and \<^verbatim>\<open>project_id\<close> have been assigned into it, and
  with the legacy name pair set, \<^verbatim>\<open>org_name\<close> and \<^verbatim>\<open>project_name\<close>.
\<close>

theorem prepare_params_frame:
  "snd (prepare_params s kw) =
     (if isl (fst (prepare_params s kw)) then kw
      else if truthy (org_id s)
      then AList.update ''project_id'' (pyopt (project_id s))
             (AList.update ''org_id'' (pyopt (org_id s)) kw)
      else if truthy (organization s)
      then AList.update ''project_name'' (pyopt (project s))
             (AList.update ''org_name'' (pyopt (organization s)) kw)
      else kw)
   \<and> (\<forall>out. fst (prepare_params s kw) = Inr out \<longrightarrow> out = not_none (snd (prepare_params s kw)))
   \<and> prepare_params s kw =
       prepare_params \<lparr>organization = organization s, project = project s,
                       org_id = org_id s, project_id = project_id s\<rparr> kw"
proof (intro conjI)
  show "snd (prepare_params s kw) =
     (if isl (fst (prepare_params s kw)) then kw
      else if truthy (org_id s)
      then AList.update ''project_id'' (pyopt (project_id s))
             (AList.update ''org_id'' (pyopt (org_id s)) kw)
      else if truthy (organization s)
      then AList.update ''project_name'' (pyopt (project s))
             (AList.update ''org_name'' (pyopt (organization s)) kw)
      else kw)"
    by (auto simp: prepare_params_def)
next
  show "\<forall>out. fst (prepare_params s kw) = Inr out
          \<longrightarrow> out = not_none (snd (prepare_params s kw))"
    by (auto simp: prepare_params_def)
next
  show "prepare_params s kw =
       prepare_params \<lparr>organization = organization s, project = project s,
                       org_id = org_id s, project_id = project_id s\<rparr> kw"
    by (simp add: prepare_params_def)
qed

theorem prepare_params_frame_witness:
  "snd (prepare_params
      \<lparr>organization = None, project = None, org_id = Some ''org_1'', project_id = Some ''proj_1''\<rparr>
      [(''user_id'', PStr ''alice''), (''run_id'', PNone)])
     = [(''user_id'', PStr ''alice''), (''run_id'', PNone),
        (''org_id'', PStr ''org_1''), (''project_id'', PStr ''proj_1'')]
   \<and> fst (prepare_params
      \<lparr>organization = None, project = None, org_id = Some ''org_1'', project_id = Some ''proj_1''\<rparr>
      [(''user_id'', PStr ''alice''), (''run_id'', PNone)])
     = Inr [(''user_id'', PStr ''alice''),
            (''org_id'', PStr ''org_1''), (''project_id'', PStr ''proj_1'')]"
  using prepare_params_frame
    [of "\<lparr>organization = None, project = None, org_id = Some ''org_1'', project_id = Some ''proj_1''\<rparr>"
        "[(''user_id'', PStr ''alice''), (''run_id'', PNone)]"]
  by (simp add: prepare_params_def truthy_def pyopt_def not_none_def)

section \<open>Properties of the payload builder\<close>

lemma prepare_payload_lookup:
  assumes "distinct (map fst kwargs)"
  shows "map_of (prepare_payload m kwargs) k =
     (case map_of kwargs k of
        None \<Rightarrow> map_of (prepare_payload m []) k
      | Some v \<Rightarrow> if v = PNone then map_of (prepare_payload m []) k else Some v)"
proof -
  have d: "distinct (map fst (not_none kwargs))"
    using assms by (rule distinct_not_none)
  have empty: "prepare_payload m [] = dict_update (prepare_payload m []) []"
    by (simp add: dict_update_def)
  have "map_of (prepare_payload m kwargs) = map_of (prepare_payload m []) ++ map_of (not_none kwargs)"
    by (simp add: prepare_payload_def Let_def map_of_dict_update map_of_rev_distinct [OF d]
        not_none_def [of "[]"] dict_update_def [of _ "[]"])
  then show ?thesis
    by (simp add: map_add_def map_of_not_none_distinct [OF assms] split: option.splits)
qed

text \<open>
  The options the builder receives. Its two callers, \<^verbatim>\<open>add\<close> of either client, pass the
  reconciled keyword options of \<^verbatim>\<open>add\<close>. \<^verbatim>\<open>messages\<close> is a named parameter of
  \<^verbatim>\<open>add\<close>, so it is never a key of those keyword options, and reconciliation keeps the
  keys distinct and adds four fixed keys at most: the reconciled options have distinct
  keys and no entry named \<^verbatim>\<open>messages\<close>.
\<close>

lemma reconciled_options_keys:
  assumes "fst (prepare_params self kw) = Inr options"
  shows "fst ` set options
           \<subseteq> fst ` set kw \<union> {''org_id'', ''project_id'', ''org_name'', ''project_name''}"
    and "distinct (map fst kw) \<Longrightarrow> distinct (map fst options)"
    and "PNone \<notin> snd ` set options"
proof -
  have keys: "fst ` set (not_none d) \<subseteq> fst ` set d" for d
    by (auto simp: set_not_none)
  have upd: "fst ` set (AList.update k2 v2 (AList.update k1 v1 d)) = {k1, k2} \<union> fst ` set d"
    for k1 k2 v1 v2 and d :: dict
    by (auto simp: dom_update)
  show "fst ` set options
           \<subseteq> fst ` set kw \<union> {''org_id'', ''project_id'', ''org_name'', ''project_name''}"
    using assms keys [of kw]
      keys [of "AList.update ''project_id'' (pyopt (project_id self))
                 (AList.update ''org_id'' (pyopt (org_id self)) kw)"]
      keys [of "AList.update ''project_name'' (pyopt (project self))
                 (AList.update ''org_name'' (pyopt (organization self)) kw)"]
    by (auto simp: prepare_params_def upd split: if_splits)
  show "distinct (map fst options)" if "distinct (map fst kw)"
    using assms that
    by (auto simp: prepare_params_def split: if_splits
        intro!: distinct_not_none distinct_update)
  show "PNone \<notin> snd ` set options"
    using assms
    by (auto simp: prepare_params_def set_not_none split: if_splits)
qed

lemma reconciled_payload_messages:
  assumes "distinct (map fst kw)" and "''messages'' \<notin> fst ` set kw"
    and "fst (prepare_params self kw) = Inr options"
  shows "map_of (prepare_payload (PStr s) options) ''messages''
           = Some (PList [PDict [(''role'', PStr ''user''), (''content'', PStr s)]])"
    and "map_of (prepare_payload (PList l) options) ''messages'' = Some (PList l)"
proof -
  have d: "distinct (map fst options)"
    using reconciled_options_keys(2) [OF assms(3) assms(1)] .
  have "''messages'' \<notin> fst ` set options"
    using reconciled_options_keys(1) [OF assms(3)] assms(2) by auto
  then have none: "map_of options ''messages'' = None"
    by (simp add: map_of_eq_None_iff)
  show "map_of (prepare_payload (PStr s) options) ''messages''
           = Some (PList [PDict [(''role'', PStr ''user''), (''content'', PStr s)]])"
    by (simp add: prepare_payload_lookup [OF d] none)
       (simp add: prepare_payload_def not_none_def dict_update_def)
  show "map_of (prepare_payload (PList l) options) ''messages'' = Some (PList l)"
    by (simp add: prepare_payload_lookup [OF d] none)
       (simp add: prepare_payload_def not_none_def dict_update_def)
qed

text \<open>
  C7. Let the options mapping (its keys distinct) have no non-null entry named
  \<^verbatim>\<open>messages\<close>, as is the case for every options mapping the builder is given. For a
  plain string \<open>s\<close> the payload's \<^verbatim>\<open>messages\<close> field is the one-element list
  \<^verbatim>\<open>[{role: "user", content: s}]\<close>; for a list the field is that list, unchanged. For
  any input, every non-null entry of the options is a top-level field of the payload, and
  a null entry is dropped: its key is looked up as if the options were empty.
\<close>

theorem prepare_payload_law:
  assumes "distinct (map fst kwargs)"
    and "map_of kwargs ''messages'' = None \<or> map_of kwargs ''messages'' = Some PNone"
  shows "map_of (prepare_payload (PStr s) kwargs) ''messages''
           = Some (PList [PDict [(''role'', PStr ''user''), (''content'', PStr s)]])
       \<and> map_of (prepare_payload (PList l) kwargs) ''messages'' = Some (PList l)
       \<and> (\<forall>k v. map_of kwargs k = Some v \<and> v \<noteq> PNone
             \<longrightarrow> map_of (prepare_payload m kwargs) k = Some v)
       \<and> (\<forall>k. map_of kwargs k = Some PNone
             \<longrightarrow> map_of (prepare_payload m kwargs) k = map_of (prepare_payload m []) k)"
proof -
  have base_s: "map_of (prepare_payload (PStr s) []) ''messages''
      = Some (PList [PDict [(''role'', PStr ''user''), (''content'', PStr s)]])"
    by (simp add: prepare_payload_def not_none_def dict_update_def)
  have base_l: "map_of (prepare_payload (PList l) []) ''messages'' = Some (PList l)"
    by (simp add: prepare_payload_def not_none_def dict_update_def)
  have c1: "map_of (prepare_payload (PStr s) kwargs) ''messages''
           = Some (PList [PDict [(''role'', PStr ''user''), (''content'', PStr s)]])"
    using assms(2) base_s by (auto simp: prepare_payload_lookup [OF assms(1)])
  have c2: "map_of (prepare_payload (PList l) kwargs) ''messages'' = Some (PList l)"
    using assms(2) base_l by (auto simp: prepare_payload_lookup [OF assms(1)])
  have c3: "\<forall>k v. map_of kwargs k = Some v \<and> v \<noteq> PNone
             \<longrightarrow> map_of (prepare_payload m kwargs) k = Some v"
    by (simp add: prepare_payload_lookup [OF assms(1)])
  have c4: "\<forall>k. map_of kwargs k = Some PNone
             \<longrightarrow> map_of (prepare_payload m kwargs) k = map_of (prepare_payload m []) k"
    by (simp add: prepare_payload_lookup [OF assms(1)])
  show ?thesis using c1 c2 c3 c4 by blast
qed


theorem prepare_payload_law_witness:
  "map_of (prepare_payload (PStr ''hi'') [(''user_id'', PStr ''alice''), (''run_id'', PNone)]) ''messages''
     = Some (PList [PDict [(''role'', PStr ''user''), (''content'', PStr ''hi'')]])
   \<and> map_of (prepare_payload (PList [PDict [(''role'', PStr ''assistant''), (''content'', PStr ''yo'')]])
        [(''user_id'', PStr ''alice''), (''run_id'', PNone)]) ''messages''
     = Some (PList [PDict [(''role'', PStr ''assistant''), (''content'', PStr ''yo'')]])
   \<and> map_of (prepare_payload (PStr ''hi'') [(''user_id'', PStr ''alice''), (''run_id'', PNone)]) ''user_id''
     = Some (PStr ''alice'')
   \<and> map_of (prepare_payload (PStr ''hi'') [(''user_id'', PStr ''alice''), (''run_id'', PNone)]) ''run_id''
     = None"
  using prepare_payload_law
    [of "[(''user_id'', PStr ''alice''), (''run_id'', PNone)]" "''hi''"
        "[PDict [(''role'', PStr ''assistant''), (''content'', PStr ''yo'')]]" "PStr ''hi''"]
  by (simp add: prepare_payload_def not_none_def dict_update_def)

section \<open>Running the operations\<close>

lemmas run_defs = and_then_def lift_def return_val_def raise_def send_def raise_for_status_def
  response_json_def capture_client_event_def api_error_handler_def async_def_def await_def
  awaited_def is_success_def

lemma api_error_handler_no_raw:
  "fst (api_error_handler func st) \<noteq> Inl (HTTPStatusError r) \<and>
   fst (api_error_handler func st) \<noteq> Inl (RequestError m)"
proof -
  have "api_error e \<noteq> HTTPStatusError r \<and> api_error e \<noteq> RequestError m" for e
    by (cases e) simp_all
  then show ?thesis
    by (auto simp: api_error_handler_def split: prod.splits sum.splits)
qed

lemma awaited_async_def:
  "awaited (api_error_handler (async_def body)) = body"
  by (simp add: awaited_def api_error_handler_def async_def_def return_val_def and_then_def await_def fun_eq_iff)

lemma send_ok:
  "http env (sent st) rq = Inr r \<Longrightarrow> send env rq st = (Inr r, st\<lparr>sent := sent st @ [rq]\<rparr>)"
  by (simp add: send_def)

lemma send_then_check_failed:
  assumes "failed (http env (sent st) rq)"
  shows "and_then (send env rq) (\<lambda>response. and_then (raise_for_status response) f) st
     = (Inl (failure (http env (sent st) rq)), st\<lparr>sent := sent st @ [rq]\<rparr>)"
  using assms
  by (cases "http env (sent st) rq")
     (simp_all add: failed_def failure_def and_then_def send_def raise_for_status_def raise_def)

lemma send_then_check_ok:
  assumes "http env (sent st) rq = Inr r" and "is_success r"
  shows "and_then (send env rq) (\<lambda>response. and_then (raise_for_status response) f) st
     = f () (st\<lparr>sent := sent st @ [rq]\<rparr>)"
  using assms
  by (simp add: and_then_def send_def raise_for_status_def return_val_def)

section \<open>\<^verbatim>\<open>get_all\<close>: version 2 and pagination\<close>

text \<open>
  What the two clients send for version \<^verbatim>\<open>v2\<close>, for any reconciled parameters: the
  synchronous client moves \<^verbatim>\<open>page\<close> and \<^verbatim>\<open>page_size\<close> to the query string when
  both are present and sends everything in the body otherwise; the asynchronous client
  always sends everything in the body.
\<close>

lemma MemoryClient_get_all_v2_sent:
  assumes "fst (prepare_params self kw) = Inr ps"
  shows "sent (snd (MemoryClient_get_all env self ''v2'' kw st)) = sent st @
     [case (map_of ps ''page'', map_of ps ''page_size'') of
        (Some page, Some page_size) \<Rightarrow>
          \<lparr>http_method = ''POST'', url = ''/v2/memories/'',
           params = Some [(''page'', page), (''page_size'', page_size)],
           json = Some (PDict (AList.delete ''page_size'' (AList.delete ''page'' ps)))\<rparr>
      | _ \<Rightarrow> \<lparr>http_method = ''POST'', url = ''/v2/memories/'', params = None,
              json = Some (PDict ps)\<rparr>]"
  using assms
  by (cases "prepare_params self kw")
     (auto simp: MemoryClient_get_all_def run_defs Let_def split: sum.splits option.splits)

lemma AsyncMemoryClient_get_all_v2_sent:
  assumes "fst (prepare_params self kw) = Inr ps"
  shows "sent (snd (awaited (AsyncMemoryClient_get_all env self ''v2'' kw) st)) = sent st @
     [\<lparr>http_method = ''POST'', url = ''/v2/memories/'', params = None, json = Some (PDict ps)\<rparr>]"
  using assms
  by (cases "prepare_params self kw")
     (auto simp: AsyncMemoryClient_get_all_def run_defs Let_def split: sum.splits option.splits)

text \<open>
  C5. With version \<^verbatim>\<open>v2\<close> and both \<^verbatim>\<open>page\<close> and \<^verbatim>\<open>page_size\<close> supplied, the
  synchronous client sends exactly those two as query parameters and the rest as the JSON
  body, as the claim says; on the same input the asynchronous client sends no query
  parameters and puts \<^verbatim>\<open>page\<close> and \<^verbatim>\<open>page_size\<close> in the JSON body.
\<close>

theorem get_all_v2_pagination_split_diverges:
  "sent (snd (MemoryClient_get_all env_ok s_none ''v2''
       [(''page'', PInt 1), (''page_size'', PInt 50), (''user_id'', PStr ''alice'')] st0))
     = [\<lparr>http_method = ''POST'', url = ''/v2/memories/'',
         params = Some [(''page'', PInt 1), (''page_size'', PInt 50)],
         json = Some (PDict [(''user_id'', PStr ''alice'')])\<rparr>]
   \<and> sent (snd (awaited (AsyncMemoryClient_get_all env_ok s_none ''v2''
       [(''page'', PInt 1), (''page_size'', PInt 50), (''user_id'', PStr ''alice'')]) st0))
     = [\<lparr>http_method = ''POST'', url = ''/v2/memories/'', params = None,
         json = Some (PDict [(''page'', PInt 1), (''page_size'', PInt 50),
                             (''user_id'', PStr ''alice'')])\<rparr>]"
  by (simp add: MemoryClient_get_all_def AsyncMemoryClient_get_all_def run_defs
      prepare_params_def s_none_def truthy_def not_none_def env_ok_def st0_def)

section \<open>\<^verbatim>\<open>get_all\<close>: a version other than v1 and v2\<close>

lemma prepare_params_raises_ValueError:
  "fst (prepare_params self kw) = Inl e \<Longrightarrow> \<exists>msg. e = ValueError msg"
  by (auto simp: prepare_params_def Let_def split: if_splits)

text \<open>
  C10, as stated, fails: parameter reconciliation runs first, and on a session with only
  the org ID set the call ends there, with the \<^verbatim>\<open>ValueError\<close> of the reconciler.
\<close>

theorem get_all_unknown_version_counterexample:
  "fst (MemoryClient_get_all env_ok
         \<lparr>organization = None, project = None, org_id = Some ''org_1'', project_id = None\<rparr>
         ''v3'' [(''user_id'', PStr ''alice'')] st0)
     = Inl (ValueError msg_both_ids)"
  by (simp add: MemoryClient_get_all_def run_defs prepare_params_def truthy_def)

text \<open>
  C10, amended. For a version that is neither \<^verbatim>\<open>v1\<close> nor \<^verbatim>\<open>v2\<close>, \<^verbatim>\<open>get_all\<close> of
  either client (the asynchronous one when awaited) issues no request and emits no event.
  When parameter reconciliation succeeds, the call fails with the
  \<^verbatim>\<open>UnboundLocalError\<close> of reading the local \<^verbatim>\<open>response\<close>, which was never
  assigned, and not with \<^verbatim>\<open>APIError\<close>; when reconciliation raises, the call fails with
  that \<^verbatim>\<open>ValueError\<close>.
\<close>

theorem get_all_unknown_version:
  assumes "version \<noteq> ''v1''" and "version \<noteq> ''v2''"
  shows "(\<forall>params0. fst (prepare_params self kw) = Inr params0 \<longrightarrow>
            MemoryClient_get_all env self version kw st = (Inl (UnboundLocalError ''response''), st)
          \<and> awaited (AsyncMemoryClient_get_all env self version kw) st
              = (Inl (UnboundLocalError ''response''), st))
       \<and> (\<forall>e. fst (prepare_params self kw) = Inl e \<longrightarrow>
            (\<exists>msg. e = ValueError msg)
          \<and> MemoryClient_get_all env self version kw st = (Inl e, st)
          \<and> awaited (AsyncMemoryClient_get_all env self version kw) st = (Inl e, st))"
proof -
  have ok: "MemoryClient_get_all env self version kw st = (Inl (UnboundLocalError ''response''), st)
          \<and> awaited (AsyncMemoryClient_get_all env self version kw) st
              = (Inl (UnboundLocalError ''response''), st)"
    if "fst (prepare_params self kw) = Inr params0" for params0
    using that assms
    by (cases "prepare_params self kw")
       (simp add: MemoryClient_get_all_def AsyncMemoryClient_get_all_def awaited_async_def
          api_error_handler_def and_then_def lift_def return_val_def raise_def)
  have bad: "(\<exists>msg. e = ValueError msg)
          \<and> MemoryClient_get_all env self version kw st = (Inl e, st)
          \<and> awaited (AsyncMemoryClient_get_all env self version kw) st = (Inl e, st)"
    if "fst (prepare_params self kw) = Inl e" for e
  proof -
    from that obtain msg where e: "e = ValueError msg"
      using prepare_params_raises_ValueError by blast
    show ?thesis
      using that e
      by (cases "prepare_params self kw")
         (simp add: MemoryClient_get_all_def AsyncMemoryClient_get_all_def awaited_async_def
            api_error_handler_def and_then_def lift_def)
  qed
  from ok bad show ?thesis by blast
qed

theorem get_all_unknown_version_witness:
  "MemoryClient_get_all env_ok s_none ''v3'' [(''user_id'', PStr ''alice'')] st0
     = (Inl (UnboundLocalError ''response''), st0)
   \<and> awaited (AsyncMemoryClient_get_all env_ok s_none ''v3'' [(''user_id'', PStr ''alice'')]) st0
     = (Inl (UnboundLocalError ''response''), st0)
   \<and> MemoryClient_get_all env_ok
         \<lparr>organization = None, project = None, org_id = Some ''org_1'', project_id = None\<rparr>
         ''v3'' [] st0
     = (Inl (ValueError msg_both_ids), st0)"
  using get_all_unknown_version [of "''v3''" s_none "[(''user_id'', PStr ''alice'')]" env_ok st0]
    get_all_unknown_version [of "''v3''"
      "\<lparr>organization = None, project = None, org_id = Some ''org_1'', project_id = None\<rparr>"
      "[]" env_ok st0]
  by (simp add: prepare_params_def s_none_def truthy_def)

section \<open>The error boundary\<close>

text \<open>
  In the synchronous client no operation lets a transport or status failure out as it
  was raised.
\<close>

lemma sync_operations_wrap:
  "fst (MemoryClient_add env self messages kw st) \<noteq> Inl (HTTPStatusError r)"
  "fst (MemoryClient_add env self messages kw st) \<noteq> Inl (RequestError m)"
  "fst (MemoryClient_get_all env self version kw st) \<noteq> Inl (HTTPStatusError r)"
  "fst (MemoryClient_get_all env self version kw st) \<noteq> Inl (RequestError m)"
  "fst (MemoryClient_users env self st) \<noteq> Inl (HTTPStatusError r)"
  "fst (MemoryClient_users env self st) \<noteq> Inl (RequestError m)"
  "fst (MemoryClient_delete_users env self st) \<noteq> Inl (HTTPStatusError r)"
  "fst (MemoryClient_delete_users env self st) \<noteq> Inl (RequestError m)"
  unfolding MemoryClient_add_def MemoryClient_get_all_def MemoryClient_users_def
    MemoryClient_delete_users_def
  by (simp_all add: api_error_handler_no_raw)

text \<open>
  C6. A status failure (the service answers 500) and a transport failure (the service
  cannot be reached) during \<^verbatim>\<open>add\<close>: the synchronous client raises \<^verbatim>\<open>APIError\<close>
  with the response text or the failure's message, as the claim says; from the
  asynchronous client the caller receives the raw \<^verbatim>\<open>HTTPStatusError\<close> and
  \<^verbatim>\<open>RequestError\<close>, since the decorator's \<^verbatim>\<open>try\<close> has ended when the coroutine is
  awaited.
\<close>

theorem async_add_escapes_error_boundary:
  "fst (awaited (AsyncMemoryClient_add env_500 s_none (PStr ''hi'') [(''user_id'', PStr ''alice'')]) st0)
     = Inl (HTTPStatusError \<lparr>status_code = 500, text_of = ''boom'', json_body = None\<rparr>)
   \<and> fst (awaited (AsyncMemoryClient_add env_down s_none (PStr ''hi'') [(''user_id'', PStr ''alice'')]) st0)
     = Inl (RequestError ''connection refused'')
   \<and> fst (MemoryClient_add env_500 s_none (PStr ''hi'') [(''user_id'', PStr ''alice'')] st0)
     = Inl (APIError ''API request failed: boom'')
   \<and> fst (MemoryClient_add env_down s_none (PStr ''hi'') [(''user_id'', PStr ''alice'')] st0)
     = Inl (APIError ''Request failed: connection refused'')"
  by (simp add: AsyncMemoryClient_add_def MemoryClient_add_def run_defs prepare_params_def
      s_none_def truthy_def not_none_def env_500_def env_down_def st0_def)

section \<open>\<^verbatim>\<open>delete_users\<close>: sequential short circuit\<close>

lemma delete_entities_short_circuit:
  assumes "map (delete_request env ps) (take (Suc j) es) = map Inr rqs"
    and "j < length es"
    and "\<forall>i<j. \<exists>r. http env (sent st @ take i rqs) (rqs ! i) = Inr r \<and> is_success r"
    and "failed (http env (sent st @ take j rqs) (rqs ! j))"
  shows "delete_entities env ps es st
     = (Inl (failure (http env (sent st @ take j rqs) (rqs ! j))), st\<lparr>sent := sent st @ rqs\<rparr>)"
  using assms
proof (induction es arbitrary: j rqs st)
  case Nil
  then show ?case by simp
next
  case (Cons entity rest)
  from Cons.prems(1) obtain rq rqs' where rqs: "rqs = rq # rqs'"
    and rq: "delete_request env ps entity = Inr rq"
    and rest: "map (delete_request env ps) (take j rest) = map Inr rqs'"
    by (cases rqs) auto
  show ?case
  proof (cases j)
    case 0
    with rest have "rqs' = []" by simp
    with Cons.prems(4) 0 rqs have f: "failed (http env (sent st) rq)" by simp
    show ?thesis
      using send_then_check_failed [OF f] 0 rqs \<open>rqs' = []\<close>
      by (simp add: rq and_then_def lift_def)
  next
    case (Suc j')
    from Cons.prems(3) Suc rqs obtain r where r: "http env (sent st) rq = Inr r" "is_success r"
      by fastforce
    let ?st1 = "st\<lparr>sent := sent st @ [rq]\<rparr>"
    have rest': "map (delete_request env ps) (take (Suc j') rest) = map Inr rqs'"
      using rest Suc by simp
    have len: "j' < length rest" using Cons.prems(2) Suc by simp
    have oks: "\<forall>i<j'. \<exists>r. http env (sent ?st1 @ take i rqs') (rqs' ! i) = Inr r \<and> is_success r"
    proof (intro allI impI)
      fix i assume "i < j'"
      then have "Suc i < j" using Suc by simp
      with Cons.prems(3) have "\<exists>r. http env (sent st @ take (Suc i) rqs) (rqs ! Suc i) = Inr r \<and> is_success r"
        by blast
      then show "\<exists>r. http env (sent ?st1 @ take i rqs') (rqs' ! i) = Inr r \<and> is_success r"
        by (simp add: rqs)
    qed
    have fl: "failed (http env (sent ?st1 @ take j' rqs') (rqs' ! j'))"
      using Cons.prems(4) Suc rqs by simp
    have "delete_entities env ps (entity # rest) st = delete_entities env ps rest ?st1"
      using send_then_check_ok [OF r] by (simp add: rq and_then_def lift_def)
    also have "\<dots> = (Inl (failure (http env (sent ?st1 @ take j' rqs') (rqs' ! j'))),
        ?st1\<lparr>sent := sent ?st1 @ rqs'\<rparr>)"
      by (rule Cons.IH [OF rest' len oks fl])
    also have "\<dots> = (Inl (failure (http env (sent st @ take j rqs) (rqs ! j))), st\<lparr>sent := sent st @ rqs\<rparr>)"
      by (simp add: Suc rqs)
    finally show ?thesis .
  qed
qed

lemma MemoryClient_users_ok:
  assumes "prepare_params0 self = Inr ps"
    and "http env (sent st) (users_request ps) = Inr r0"
    and "is_success r0" and "json_body r0 = Some v"
  shows "MemoryClient_users env self st =
    (Inr v, st\<lparr>sent := sent st @ [users_request ps],
               events := events st @ [(''client.users'', None)]\<rparr>)"
  using assms
  by (simp add: MemoryClient_users_def users_request_def api_error_handler_def and_then_def
      lift_def send_def raise_for_status_def return_val_def capture_client_event_def
      response_json_def)

lemma AsyncMemoryClient_users_ok:
  assumes "prepare_params0 self = Inr ps"
    and "http env (sent st) (users_request ps) = Inr r0"
    and "is_success r0" and "json_body r0 = Some v"
  shows "awaited (AsyncMemoryClient_users env self) st =
    (Inr v, st\<lparr>sent := sent st @ [users_request ps],
               events := events st @ [(''async_client.users'', None)]\<rparr>)"
  using assms
  by (simp add: AsyncMemoryClient_users_def awaited_async_def users_request_def and_then_def
      lift_def send_def raise_for_status_def return_val_def capture_client_event_def
      response_json_def)

text \<open>
  C8. Let the listing succeed with \<open>N\<close> entities \<open>es\<close>, let the first \<open>j\<close> deletes
  complete (a 2xx response each) and let delete number \<open>k = j + 1\<close> fail, by a transport
  failure or a status that is not 2xx; \<open>rqs\<close> are the requests of the first \<open>k\<close> entities.
  Then in both clients \<^verbatim>\<open>delete_users\<close> raises at once (the synchronous client the
  wrapped \<^verbatim>\<open>APIError\<close>, the asynchronous one the failure itself), and the requests
  issued are the listing followed by exactly those \<open>k\<close> deletes, in the order of the
  listing: nothing is sent for an entity after the \<open>k\<close>-th, nothing is undone, and the
  \<^verbatim>\<open>delete_users\<close> event is not emitted.
\<close>

theorem delete_users_short_circuit:
  assumes cfg: "prepare_params0 self = Inr ps"
    and listing: "http env (sent st) (users_request ps) = Inr r0" "is_success r0"
      "json_body r0 = Some entities" "subscript entities ''results'' = Inr results"
      "py_iter results = Inr es"
    and reqs: "map (delete_request env ps) (take (Suc j) es) = map Inr rqs"
    and j: "j < length es"
    and completed: "\<forall>i<j. \<exists>r. http env (sent st @ users_request ps # take i rqs) (rqs ! i) = Inr r
                       \<and> is_success r"
    and fails: "failed (http env (sent st @ users_request ps # take j rqs) (rqs ! j))"
  shows "length rqs = Suc j
    \<and> MemoryClient_delete_users env self st =
        (Inl (api_error (failure (http env (sent st @ users_request ps # take j rqs) (rqs ! j)))),
         st\<lparr>sent := sent st @ users_request ps # rqs,
            events := events st @ [(''client.users'', None)]\<rparr>)
    \<and> awaited (AsyncMemoryClient_delete_users env self) st =
        (Inl (failure (http env (sent st @ users_request ps # take j rqs) (rqs ! j))),
         st\<lparr>sent := sent st @ users_request ps # rqs,
            events := events st @ [(''async_client.users'', None)]\<rparr>)"
proof -
  have len: "length rqs = Suc j"
  proof -
    have "length (map Inr rqs :: (exn + request) list) = length (take (Suc j) es)"
      using reqs by (metis length_map)
    then show ?thesis using j by simp
  qed
  have loop: "delete_entities env ps es (st\<lparr>sent := sent st @ [users_request ps], events := ev\<rparr>)
     = (Inl (failure (http env (sent st @ users_request ps # take j rqs) (rqs ! j))),
        st\<lparr>sent := sent st @ users_request ps # rqs, events := ev\<rparr>)" for ev
    using delete_entities_short_circuit
      [of env ps j es rqs "st\<lparr>sent := sent st @ [users_request ps], events := ev\<rparr>"]
      reqs j completed fails
    by simp
  have sync: "MemoryClient_delete_users env self st =
        (Inl (api_error (failure (http env (sent st @ users_request ps # take j rqs) (rqs ! j)))),
         st\<lparr>sent := sent st @ users_request ps # rqs,
            events := events st @ [(''client.users'', None)]\<rparr>)"
    by (simp add: MemoryClient_delete_users_def api_error_handler_def and_then_def lift_def cfg
        MemoryClient_users_ok [OF cfg listing(1-3)] listing(4,5) loop)
  have async: "awaited (AsyncMemoryClient_delete_users env self) st =
        (Inl (failure (http env (sent st @ users_request ps # take j rqs) (rqs ! j))),
         st\<lparr>sent := sent st @ users_request ps # rqs,
            events := events st @ [(''async_client.users'', None)]\<rparr>)"
    by (simp add: AsyncMemoryClient_delete_users_def awaited_async_def and_then_def lift_def cfg
        AsyncMemoryClient_users_ok [OF cfg listing(1-3)] listing(4,5) loop)
  from len sync async show ?thesis by blast
qed

theorem delete_users_short_circuit_witness:
  "MemoryClient_delete_users env_entities s_none st0 =
     (Inl (APIError ''API request failed: boom''),
      \<lparr>sent = [users_request [], delete_of ''/v1/entities/user/a/'', delete_of ''/v1/entities/user/b/''],
       events = [(''client.users'', None)]\<rparr>)
   \<and> awaited (AsyncMemoryClient_delete_users env_entities s_none) st0 =
     (Inl (HTTPStatusError \<lparr>status_code = 500, text_of = ''boom'', json_body = None\<rparr>),
      \<lparr>sent = [users_request [], delete_of ''/v1/entities/user/a/'', delete_of ''/v1/entities/user/b/''],
       events = [(''async_client.users'', None)]\<rparr>)"
  using delete_users_short_circuit
    [of s_none "[]" env_entities st0
        "\<lparr>status_code = 200, text_of = [],
          json_body = Some (PDict [(''results'',
            PList [entity ''user'' ''a'', entity ''user'' ''b'', entity ''agent'' ''c''])])\<rparr>"
        "PDict [(''results'',
            PList [entity ''user'' ''a'', entity ''user'' ''b'', entity ''agent'' ''c''])]"
        "PList [entity ''user'' ''a'', entity ''user'' ''b'', entity ''agent'' ''c'']"
        "[entity ''user'' ''a'', entity ''user'' ''b'', entity ''agent'' ''c'']"
        "Suc 0"
        "[delete_of ''/v1/entities/user/a/'', delete_of ''/v1/entities/user/b/'']"]
  by (simp add: prepare_params0_def prepare_params_def s_none_def truthy_def not_none_def
      env_entities_def st0_def users_request_def is_success_def subscript_def py_iter_def
      delete_request_def entity_def py_str_def delete_of_def failed_def failure_def)

end
